theory Spec2Isabelle
  imports Main "HOL-Library.Word" "HOL-Library.Char_ord" "HOL-Library.List_Lexorder"
begin

section \<open>The C library as the server uses it\<close>

text \<open>
  The server (\<^verbatim>\<open>src/http.c\<close>, \<^verbatim>\<open>src/util.c\<close>, \<^verbatim>\<open>src/net.c\<close>) is written against the C
  library. A C string is modelled as a \<open>string\<close> without the terminating NUL byte; a
  buffer that has not been written is \<open>None\<close>. The library functions below follow
  POSIX and, where POSIX leaves a choice, glibc in the "C" locale (the server never calls
  \<^verbatim>\<open>setlocale\<close>).
\<close>

subsection \<open>Characters and strings\<close>


definition CRLF :: string where
  "CRLF = [CHR 0x0D, CHR 0x0A]"

definition isspace :: "char \<Rightarrow> bool" where
  "isspace c = (c = CHR '' '' \<or> c = CHR 0x09 \<or> c = CHR 0x0A \<or> c = CHR 0x0B
     \<or> c = CHR 0x0C \<or> c = CHR 0x0D)"

definition isdigit :: "char \<Rightarrow> bool" where
  "isdigit c = (48 \<le> (of_char c :: nat) \<and> (of_char c :: nat) \<le> 57)"

definition digit_val :: "char \<Rightarrow> int" where
  "digit_val c = int (of_char c) - 48"

definition tolower :: "char \<Rightarrow> char" where
  "tolower c = (if 65 \<le> (of_char c :: nat) \<and> (of_char c :: nat) \<le> 90
                then char_of ((of_char c :: nat) + 32) else c)"


text \<open>\<^verbatim>\<open>strncasecmp\<close>; the end of a string compares as the byte 0.\<close>

fun strncasecmp :: "string \<Rightarrow> string \<Rightarrow> nat \<Rightarrow> int" where
  "strncasecmp s1 s2 0 = 0"
| "strncasecmp [] [] (Suc n) = 0"
| "strncasecmp [] (b # bs) (Suc n) = - int (of_char (tolower b))"
| "strncasecmp (a # as) [] (Suc n) = int (of_char (tolower a))"
| "strncasecmp (a # as) (b # bs) (Suc n) =
     (if tolower a = tolower b then strncasecmp as bs n
      else int (of_char (tolower a)) - int (of_char (tolower b)))"

fun strcasecmp :: "string \<Rightarrow> string \<Rightarrow> int" where
  "strcasecmp [] [] = 0"
| "strcasecmp [] (b # bs) = - int (of_char (tolower b))"
| "strcasecmp (a # as) [] = int (of_char (tolower a))"
| "strcasecmp (a # as) (b # bs) =
     (if tolower a = tolower b then strcasecmp as bs
      else int (of_char (tolower a)) - int (of_char (tolower b)))"

text \<open>\<^verbatim>\<open>strstr\<close>: the suffix of the haystack at the first occurrence of the needle,
  \<open>None\<close> for the null pointer.\<close>

fun strstr :: "string \<Rightarrow> string \<Rightarrow> string option" where
  "strstr [] needle = (if needle = [] then Some [] else None)"
| "strstr (c # cs) needle =
     (if take (length needle) (c # cs) = needle then Some (c # cs) else strstr cs needle)"

text \<open>\<^verbatim>\<open>strchr\<close>, as the index of the first occurrence.\<close>

fun strchr :: "string \<Rightarrow> char \<Rightarrow> nat option" where
  "strchr [] c = None"
| "strchr (x # xs) c = (if x = c then Some 0 else map_option Suc (strchr xs c))"



text \<open>Decimal output of \<^verbatim>\<open>%d\<close>.\<close>

definition digit_char :: "nat \<Rightarrow> char" where
  "digit_char d = char_of (48 + d)"

fun show_nat :: "nat \<Rightarrow> string" where
  "show_nat n = (if n < 10 then [digit_char n] else show_nat (n div 10) @ [digit_char (n mod 10)])"

declare show_nat.simps [simp del]

definition show_int :: "int \<Rightarrow> string" where
  "show_int i = (if i < 0 then CHR ''-'' # show_nat (nat (- i)) else show_nat (nat i))"

text \<open>
  \<^verbatim>\<open>atoi\<close> is \<^verbatim>\<open>(int) strtol(s, NULL, 10)\<close>: white space, an optional sign, the longest run
  of digits (the value 0 when there is none); \<^verbatim>\<open>strtol\<close> saturates at the bounds of a
  64-bit \<^verbatim>\<open>long\<close> and the conversion to \<^verbatim>\<open>int\<close> keeps the low 32 bits.
\<close>

definition to_int32 :: "int \<Rightarrow> int" where
  "to_int32 i = sint (word_of_int i :: 32 word)"

fun digits_value :: "int \<Rightarrow> string \<Rightarrow> int" where
  "digits_value acc [] = acc"
| "digits_value acc (c # cs) =
     (if isdigit c then digits_value (acc * 10 + digit_val c) cs else acc)"

definition strtol :: "string \<Rightarrow> int" where
  "strtol s =
     (let s1 = dropWhile isspace s;
          neg = (s1 \<noteq> [] \<and> hd s1 = CHR ''-'');
          s2 = (if s1 \<noteq> [] \<and> (hd s1 = CHR ''-'' \<or> hd s1 = CHR ''+'') then tl s1 else s1);
          v = digits_value 0 s2;
          r = (if neg then - v else v)
      in max (- (2 ^ 63)) (min (2 ^ 63 - 1) r))"

definition atoi :: "string \<Rightarrow> int" where
  "atoi s = to_int32 (strtol s)"

subsection \<open>Broken-down time\<close>

text \<open>
  \<^verbatim>\<open>struct tm\<close> with the members the server's calls read or write. \<^verbatim>\<open>tm_yday\<close> is left
  out: \<^verbatim>\<open>mktime\<close> ignores it on input and no format of the server prints it.
  \<^verbatim>\<open>time_t\<close> is an \<open>int\<close>; \<^verbatim>\<open>gmtime_r\<close> fails when the year does not fit an \<^verbatim>\<open>int\<close>,
  which happens long before a 64-bit \<^verbatim>\<open>time_t\<close> would overflow.
\<close>

record tm =
  tm_sec :: int
  tm_min :: int
  tm_hour :: int
  tm_mday :: int
  tm_mon :: int
  tm_year :: int
  tm_wday :: int
  tm_isdst :: int

definition tm_zero :: tm where
  "tm_zero = \<lparr>tm_sec = 0, tm_min = 0, tm_hour = 0, tm_mday = 0, tm_mon = 0, tm_year = 0,
              tm_wday = 0, tm_isdst = 0\<rparr>"

text \<open>Days since 1970-01-01 of a date of the proleptic Gregorian calendar, and back
  (year, month 1..12, day 1..31). Years are counted from March, in eras of 400 years
  (146097 days), centuries of 36524 days and groups of four years (1461 days).\<close>

definition days_from_civil :: "int \<Rightarrow> int \<Rightarrow> int \<Rightarrow> int" where
  "days_from_civil y m d =
     (let y' = (if m \<le> 2 then y - 1 else y);
          era = y' div 400;
          yoe = y' mod 400;
          doy = (153 * (if m > 2 then m - 3 else m + 9) + 2) div 5 + d - 1;
          doe = yoe * 365 + yoe div 4 - yoe div 100 + doy
      in era * 146097 + doe - 719468)"

definition civil_from_days :: "int \<Rightarrow> int \<times> int \<times> int" where
  "civil_from_days z0 =
     (let z = z0 + 719468;
          era = z div 146097;
          doe = z mod 146097;
          n100 = min 3 (doe div 36524);
          d1 = doe - n100 * 36524;
          n4 = d1 div 1461;
          d2 = d1 mod 1461;
          n1 = min 3 (d2 div 365);
          doy = d2 - n1 * 365;
          yoe = n100 * 100 + n4 * 4 + n1;
          mp = (5 * doy + 2) div 153;
          d = doy - (153 * mp + 2) div 5 + 1;
          m = (if mp < 10 then mp + 3 else mp - 9)
      in (yoe + era * 400 + (if m \<le> 2 then 1 else 0), m, d))"

definition gmtime_r :: "int \<Rightarrow> tm option" where
  "gmtime_r t =
     (let days = t div 86400;
          rem = t mod 86400;
          rem' = rem mod 3600;
          (y, m, d) = civil_from_days days
      in if y - 1900 < - (2 ^ 31) \<or> 2 ^ 31 \<le> y - 1900 then None
         else Some \<lparr>tm_sec = rem' mod 60, tm_min = rem' div 60, tm_hour = rem div 3600,
                    tm_mday = d, tm_mon = m - 1, tm_year = y - 1900,
                    tm_wday = (days + 4) mod 7, tm_isdst = 0\<rparr>)"

text \<open>
  \<^verbatim>\<open>mktime\<close> reads the broken-down time as local time. The local zone is a parameter
  of the model: \<open>gmtoff\<close>, its offset east of UTC in seconds, for a zone without daylight
  saving (\<open>tm_isdst\<close> is 0 in every call of the server). Out-of-range members are
  normalised by the arithmetic; the month is always within 0..11 here.
\<close>

definition timegm :: "tm \<Rightarrow> int" where
  "timegm t = days_from_civil (tm_year t + 1900) (tm_mon t + 1) (tm_mday t) * 86400
                + tm_hour t * 3600 + tm_min t * 60 + tm_sec t"

definition mktime :: "int \<Rightarrow> tm \<Rightarrow> int" where
  "mktime gmtoff t = timegm t - gmtoff"

subsection \<open>\<^verbatim>\<open>strftime\<close> and \<^verbatim>\<open>strptime\<close>\<close>

definition weekday_name :: "string list" where
  "weekday_name = [''Sunday'', ''Monday'', ''Tuesday'', ''Wednesday'', ''Thursday'',
                   ''Friday'', ''Saturday'']"

definition ab_weekday_name :: "string list" where
  "ab_weekday_name = [''Sun'', ''Mon'', ''Tue'', ''Wed'', ''Thu'', ''Fri'', ''Sat'']"

definition month_name :: "string list" where
  "month_name = [''January'', ''February'', ''March'', ''April'', ''May'', ''June'', ''July'',
                 ''August'', ''September'', ''October'', ''November'', ''December'']"

definition ab_month_name :: "string list" where
  "ab_month_name = [''Jan'', ''Feb'', ''Mar'', ''Apr'', ''May'', ''Jun'', ''Jul'', ''Aug'',
                    ''Sep'', ''Oct'', ''Nov'', ''Dec'']"

definition name_of :: "string list \<Rightarrow> int \<Rightarrow> string" where
  "name_of names i = (if 0 \<le> i \<and> i < int (length names) then names ! nat i else ''?'')"

text \<open>\<^verbatim>\<open>%02d\<close>.\<close>

definition pad2 :: "int \<Rightarrow> string" where
  "pad2 n = (let s = show_int n in if length s < 2 then CHR ''0'' # s else s)"

text \<open>The conversions of the one format the server prints with.\<close>

definition strftime_conv :: "char \<Rightarrow> tm \<Rightarrow> string" where
  "strftime_conv d t =
     (if d = CHR ''a'' then name_of ab_weekday_name (tm_wday t)
      else if d = CHR ''b'' then name_of ab_month_name (tm_mon t)
      else if d = CHR ''d'' then pad2 (tm_mday t)
      else if d = CHR ''H'' then pad2 (tm_hour t)
      else if d = CHR ''M'' then pad2 (tm_min t)
      else if d = CHR ''S'' then pad2 (tm_sec t)
      else if d = CHR ''Y'' then show_int (tm_year t + 1900)
      else if d = CHR ''%'' then ''%''
      else [CHR ''%'', d])"

fun strftime_fmt :: "string \<Rightarrow> tm \<Rightarrow> string" where
  "strftime_fmt [] t = []"
| "strftime_fmt [c] t = [c]"
| "strftime_fmt (c # d # fmt) t =
     (if c = CHR ''%'' then strftime_conv d t @ strftime_fmt fmt t
      else c # strftime_fmt (d # fmt) t)"

text \<open>\<^verbatim>\<open>strftime(dst, max, format, tm)\<close> returns 0 and an unusable buffer when the
  result and its NUL byte do not fit; \<open>None\<close> stands for that.\<close>

definition strftime :: "nat \<Rightarrow> string \<Rightarrow> tm \<Rightarrow> string option" where
  "strftime maxsize format t =
     (let s = strftime_fmt format t in if length s + 1 \<le> maxsize then Some s else None)"

text \<open>glibc's \<^verbatim>\<open>get_number(from, to, n)\<close>: skip white space, read at least one and at most
  \<open>n\<close> digits while ten times the value stays within \<open>to\<close>.\<close>

fun get_number_loop :: "nat \<Rightarrow> int \<Rightarrow> int \<Rightarrow> string \<Rightarrow> int \<times> string" where
  "get_number_loop 0 to val rp = (val, rp)"
| "get_number_loop (Suc k) to val [] = (val, [])"
| "get_number_loop (Suc k) to val (c # cs) =
     (if val * 10 \<le> to \<and> isdigit c then get_number_loop k to (val * 10 + digit_val c) cs
      else (val, c # cs))"

definition get_number :: "int \<Rightarrow> int \<Rightarrow> nat \<Rightarrow> string \<Rightarrow> (int \<times> string) option" where
  "get_number from to n rp =
     (case dropWhile isspace rp of
        [] \<Rightarrow> None
      | c # cs \<Rightarrow>
          if \<not> isdigit c then None
          else (let (val, rest) = get_number_loop (n - 1) to (digit_val c) cs
                in if val < from \<or> val > to then None else Some (val, rest)))"

text \<open>glibc's \<^verbatim>\<open>match_string\<close> over a table: the first index whose full or abbreviated
  name is a prefix of the input, letter case ignored.\<close>

definition match_string :: "string \<Rightarrow> string \<Rightarrow> string option" where
  "match_string name rp =
     (if strncasecmp name rp (length name) = 0 then Some (drop (length name) rp) else None)"

fun match_names :: "(string \<times> string) list \<Rightarrow> int \<Rightarrow> string \<Rightarrow> (int \<times> string) option" where
  "match_names [] cnt rp = None"
| "match_names ((full, ab) # names) cnt rp =
     (case match_string full rp of
        Some rest \<Rightarrow> Some (cnt, rest)
      | None \<Rightarrow>
          (case match_string ab rp of
             Some rest \<Rightarrow> Some (cnt, rest)
           | None \<Rightarrow> match_names names (cnt + 1) rp))"

definition strptime_conv :: "char \<Rightarrow> string \<Rightarrow> tm \<Rightarrow> (string \<times> tm) option" where
  "strptime_conv d rp t =
     (if d = CHR ''a'' \<or> d = CHR ''A'' then
        map_option (\<lambda>(v, rest). (rest, t\<lparr>tm_wday := v\<rparr>))
          (match_names (zip weekday_name ab_weekday_name) 0 rp)
      else if d = CHR ''b'' \<or> d = CHR ''B'' \<or> d = CHR ''h'' then
        map_option (\<lambda>(v, rest). (rest, t\<lparr>tm_mon := v\<rparr>))
          (match_names (zip month_name ab_month_name) 0 rp)
      else if d = CHR ''d'' \<or> d = CHR ''e'' then
        map_option (\<lambda>(v, rest). (rest, t\<lparr>tm_mday := v\<rparr>)) (get_number 1 31 2 rp)
      else if d = CHR ''H'' then
        map_option (\<lambda>(v, rest). (rest, t\<lparr>tm_hour := v\<rparr>)) (get_number 0 23 2 rp)
      else if d = CHR ''M'' then
        map_option (\<lambda>(v, rest). (rest, t\<lparr>tm_min := v\<rparr>)) (get_number 0 59 2 rp)
      else if d = CHR ''S'' then
        map_option (\<lambda>(v, rest). (rest, t\<lparr>tm_sec := v\<rparr>)) (get_number 0 61 2 rp)
      else if d = CHR ''Y'' then
        map_option (\<lambda>(v, rest). (rest, t\<lparr>tm_year := v - 1900\<rparr>)) (get_number 0 9999 4 rp)
      else if d = CHR ''y'' then
        map_option (\<lambda>(v, rest). (rest, t\<lparr>tm_year := (if v \<ge> 69 then v else v + 100)\<rparr>))
          (get_number 0 99 2 rp)
      else None)"

text \<open>\<^verbatim>\<open>strptime(s, format, tm)\<close>: the rest of the input and the updated \<open>tm\<close>, or
  \<open>None\<close> for the null pointer. White space in the format skips any white space of the
  input, another ordinary character must match exactly.\<close>

fun strptime :: "string \<Rightarrow> string \<Rightarrow> tm \<Rightarrow> (string \<times> tm) option" where
  "strptime rp [] t = Some (rp, t)"
| "strptime rp (c # fmt) t =
     (if isspace c then strptime (dropWhile isspace rp) fmt t
      else if c \<noteq> CHR ''%'' then
        (case rp of [] \<Rightarrow> None
         | r # rp' \<Rightarrow> if r = c then strptime rp' fmt t else None)
      else
        (case fmt of [] \<Rightarrow> None
         | d # fmt' \<Rightarrow>
             (case strptime_conv d rp t of None \<Rightarrow> None
              | Some (rp', t') \<Rightarrow> strptime rp' fmt' t')))"

section \<open>\<^verbatim>\<open>util.c\<close>: HTTP dates\<close>


text \<open>\<^verbatim>\<open>http_date_to_time\<close>: \<open>Some\<close> the value stored through \<^verbatim>\<open>dst\<close> when it returns 0,
  \<open>None\<close> when it returns -1 (and leaves \<^verbatim>\<open>*dst\<close> as it was).\<close>

definition http_date_to_time :: "int \<Rightarrow> string \<Rightarrow> int option" where
  "http_date_to_time gmtoff date =
     (let parsed =
            (case strchr date (CHR '','') of
               None \<Rightarrow> strptime date ''%a %b %e %H:%M:%S %Y'' tm_zero
             | Some weekday_len \<Rightarrow>
                 if weekday_len = 3 then strptime date ''%a, %d %b %Y %H:%M:%S GMT'' tm_zero
                 else strptime date ''%A, %d-%b-%y %H:%M:%S GMT'' tm_zero)
      in case parsed of
           None \<Rightarrow> None
         | Some (rest, t) \<Rightarrow>
             (let time = mktime gmtoff t in if time = - 1 then None else Some time))"

text \<open>\<^verbatim>\<open>time_to_http_date\<close>: \<open>Some\<close> the string written to \<^verbatim>\<open>dst\<close> when it returns 0,
  \<open>None\<close> when it returns -1.\<close>

definition time_to_http_date :: "int \<Rightarrow> nat \<Rightarrow> string option" where
  "time_to_http_date time dst_len =
     (case gmtime_r time of
        None \<Rightarrow> None
      | Some date \<Rightarrow> strftime dst_len ''%a, %d %b %Y %H:%M:%S GMT'' date)"


section \<open>\<^verbatim>\<open>http.h\<close>: the data model\<close>

definition BUF_SIZE :: nat where
  "BUF_SIZE = 4 * 1024"

text \<open>\<^verbatim>\<open>PATH_MAX\<close> and \<^verbatim>\<open>LOGIN_NAME_MAX\<close> come from the system's \<^verbatim>\<open>limits.h\<close>; the values
  are those of Linux.\<close>

definition PATH_MAX :: nat where
  "PATH_MAX = 4096"

definition LOGIN_NAME_MAX :: nat where
  "LOGIN_NAME_MAX = 256"

definition HTTP_VERSION :: string where
  "HTTP_VERSION = ''HTTP/1.0''"


definition SERVER_ID :: string where
  "SERVER_ID = ''sws/1.0''"

definition IF_MODIFIED_SINCE_PREFIX :: string where
  "IF_MODIFIED_SINCE_PREFIX = ''If-Modified-Since:''"

definition CONTENT_LENGTH_PREFIX :: string where
  "CONTENT_LENGTH_PREFIX = ''Content-Length:''"

definition CONTENT_TYPE_PREFIX :: string where
  "CONTENT_TYPE_PREFIX = ''Content-Type:''"

definition INDEX_HTML :: string where
  "INDEX_HTML = ''index.html''"

definition CGI_PREFIX :: string where
  "CGI_PREFIX = ''/cgi-bin/''"

definition REQUEST_METHOD_GET :: int where
  "REQUEST_METHOD_GET = 1"

definition REQUEST_METHOD_HEAD :: int where
  "REQUEST_METHOD_HEAD = 2"

definition REQUEST_METHOD_POST :: int where
  "REQUEST_METHOD_POST = 3"

definition RESPONSE_STATUS_OK :: int where
  "RESPONSE_STATUS_OK = 200"

definition RESPONSE_STATUS_BAD_REQUEST :: int where
  "RESPONSE_STATUS_BAD_REQUEST = 400"

definition RESPONSE_STATUS_FORBIDDEN :: int where
  "RESPONSE_STATUS_FORBIDDEN = 403"

definition RESPONSE_STATUS_NOT_FOUND :: int where
  "RESPONSE_STATUS_NOT_FOUND = 404"

definition RESPONSE_STATUS_NOT_IMPLEMENTED :: int where
  "RESPONSE_STATUS_NOT_IMPLEMENTED = 501"

definition RESPONSE_STATUS_VERSION_NOT_SUPPORTED :: int where
  "RESPONSE_STATUS_VERSION_NOT_SUPPORTED = 505"

definition RESPONSE_STATUS_CONNECTION_TIMED_OUT :: int where
  "RESPONSE_STATUS_CONNECTION_TIMED_OUT = 522"

definition RESPONSE_STATUS_INTERNAL_SERVER_ERROR :: int where
  "RESPONSE_STATUS_INTERNAL_SERVER_ERROR = 500"

text \<open>\<^verbatim>\<open>struct request\<close> and \<^verbatim>\<open>struct response\<close>. Both have members \<^verbatim>\<open>content_length\<close> and
  \<^verbatim>\<open>content_type\<close>; those of the request carry the prefix \<open>req_\<close> here, and so does its
  member \<^verbatim>\<open>method\<close>, whose name is a keyword of Isabelle.\<close>

record request =
  path :: string
  req_method :: int
  if_modified_since_date :: int
  req_content_length :: int
  req_content_type :: string
  querystring :: string
  version_major :: int
  version_minor :: int

record response =
  code :: int
  last_modified :: int
  content_type :: string
  content_length :: int

text \<open>\<^verbatim>\<open>struct flags\<close>, the members that \<^verbatim>\<open>http.c\<close> reads for a response: the served
  directory and the optional CGI directory (\<open>None\<close> is the null pointer). The log
  (\<^verbatim>\<open>dflag\<close>, \<^verbatim>\<open>lflag\<close>) is written after the response, to another descriptor, and is
  not part of the model.\<close>

record flags =
  c_dir :: "string option"
  dir :: string

section \<open>The system around the server\<close>

text \<open>
  What the operating system answers is a parameter of the model: the clock and the local
  time zone, the file system as \<^verbatim>\<open>realpath\<close>, \<^verbatim>\<open>access\<close>, \<^verbatim>\<open>stat\<close>, \<^verbatim>\<open>scandir\<close> and
  \<^verbatim>\<open>open\<close>/\<^verbatim>\<open>read\<close> see it, the password file, libmagic, and the CGI child process.
  The answers do not change while one request is handled.
\<close>

datatype errno = EACCES | EROFS | ENAMETOOLONG | ELOOP | ENOENT | ENOTDIR | EOTHER

text \<open>The second argument of \<^verbatim>\<open>access\<close>: \<^verbatim>\<open>R_OK\<close>, \<^verbatim>\<open>R_OK | X_OK\<close>, or a variable that was
  never assigned.\<close>

datatype amode = R_OK | R_OK_X_OK | Unassigned

record stat =
  st_isdir :: bool
  st_size :: int
  st_mtime :: int

datatype spawn_fault = NoFault | PipeOutputFails | PipeInputFails | ForkFails

record system =
  sys_time :: int
  sys_gmtoff :: int
  sys_realpath :: "string \<Rightarrow> string option"
  sys_access :: "string \<Rightarrow> amode \<Rightarrow> errno option"
  sys_stat :: "string \<Rightarrow> stat option"
  sys_getpwnam :: "string \<Rightarrow> string option"
  sys_magic_file :: "string \<Rightarrow> string option"
  sys_scandir :: "string \<Rightarrow> string list option"
  sys_file :: "string \<Rightarrow> string option"
  sys_spawn :: spawn_fault
  sys_cgi :: "string \<Rightarrow> string option list \<Rightarrow> char option list \<Rightarrow> string"

text \<open>
  A connection: what the client will deliver, in order, what the server has written so
  far, and how many more \<^verbatim>\<open>write\<close> calls on the socket succeed. \<open>Data s\<close> is a non-empty
  segment that arrives at once, \<open>Idle\<close> a pause longer than the server's timeout,
  \<open>Error\<close> a failing \<^verbatim>\<open>read\<close>; at the end of the list the client has closed.
\<close>

datatype event = Data string | Idle | Error

record conn =
  incoming :: "event list"
  sent :: string
  writes_left :: nat

definition sock_write :: "conn \<Rightarrow> string \<Rightarrow> bool \<times> conn" where
  "sock_write socket bytes =
     (if writes_left socket = 0 then (False, socket)
      else (True, socket\<lparr>sent := sent socket @ bytes, writes_left := writes_left socket - 1\<rparr>))"

text \<open>How a call of the server ends: it returns a value, the process exits, or it runs
  into undefined behaviour.\<close>

datatype outcome = Returned int | Exited | Undefined

section \<open>\<^verbatim>\<open>util.c\<close>: buffers and MIME types\<close>

text \<open>\<^verbatim>\<open>write_buffer\<close>, applied to the text that the format and its arguments produce:
  the number of bytes, or -1 when the text and its NUL byte do not fit.\<close>

definition write_buffer :: "nat \<Rightarrow> string \<Rightarrow> int" where
  "write_buffer buf_size text =
     (if int (length text) \<ge> int buf_size then - 1 else int (length text))"

text \<open>The idiom around it: on -1 give up, otherwise advance \<^verbatim>\<open>buf_pos\<close> and shrink
  \<^verbatim>\<open>buf_size_remain\<close>. The buffer is the pair of the bytes written so far and the room left.\<close>

definition append_buffer :: "string \<times> nat \<Rightarrow> string \<Rightarrow> (string \<times> nat) option" where
  "append_buffer b text =
     (if write_buffer (snd b) text < 0 then None
      else Some (fst b @ text, snd b - length text))"


section \<open>\<^verbatim>\<open>http.c\<close>: composing responses\<close>


definition init_request :: request where
  "init_request = \<lparr>path = [], req_method = - 1, if_modified_since_date = - 1,
     req_content_length = - 1, req_content_type = [], querystring = [],
     version_major = - 1, version_minor = - 1\<rparr>"


definition coderesp_headers_text :: "system \<Rightarrow> response \<Rightarrow> (string \<times> nat) option" where
  "coderesp_headers_text sys resp =
     (case time_to_http_date (sys_time sys) 128 of
        None \<Rightarrow> None
      | Some http_date \<Rightarrow>
          Option.bind (append_buffer ([], BUF_SIZE) (''Date: '' @ http_date @ CRLF)) (\<lambda>b1.
          Option.bind (append_buffer b1 (''Server: '' @ SERVER_ID @ CRLF)) (\<lambda>b2.
          Option.bind
            (if last_modified resp \<noteq> - 1 then
               (case time_to_http_date (last_modified resp) 128 of
                  None \<Rightarrow> None
                | Some d \<Rightarrow> append_buffer b2 (''Last-Modified: '' @ d @ CRLF))
             else Some b2) (\<lambda>b3.
          Option.bind
            (if length (content_type resp) > 0 then
               append_buffer b3 (''Content-Type: '' @ content_type resp @ CRLF)
             else Some b3) (\<lambda>b4.
          Option.bind
            (if content_length resp \<ge> 0 then
               append_buffer b4 (''Content-Length: '' @ show_int (content_length resp) @ CRLF)
             else Some b4) (\<lambda>b5.
          append_buffer b5 CRLF))))))"

text \<open>\<^verbatim>\<open>coderesp_headers\<close>: the header block is composed in a buffer and written with one
  \<^verbatim>\<open>write\<close>.\<close>

definition coderesp_headers :: "system \<Rightarrow> response \<Rightarrow> conn \<Rightarrow> int \<times> conn" where
  "coderesp_headers sys resp socket =
     (case coderesp_headers_text sys resp of
        None \<Rightarrow> (- 1, socket)
      | Some b \<Rightarrow>
          (case sock_write socket (fst b) of
             (False, socket') \<Rightarrow> (- 1, socket')
           | (True, socket') \<Rightarrow> (0, socket')))"

text \<open>The \<^verbatim>\<open>switch\<close> of \<^verbatim>\<open>coderesp\<close>: the code that is printed and its reason phrase.\<close>

definition status_line :: "int \<Rightarrow> int \<times> string" where
  "status_line c =
     (if c = RESPONSE_STATUS_OK then (c, ''OK'')
      else if c = RESPONSE_STATUS_BAD_REQUEST then (c, ''Bad Request'')
      else if c = RESPONSE_STATUS_FORBIDDEN then (c, ''Forbidden'')
      else if c = RESPONSE_STATUS_NOT_FOUND then (c, ''Not Found'')
      else if c = RESPONSE_STATUS_NOT_IMPLEMENTED then (c, ''Not Implemented'')
      else if c = RESPONSE_STATUS_VERSION_NOT_SUPPORTED then (c, ''Version Not Supported'')
      else if c = RESPONSE_STATUS_CONNECTION_TIMED_OUT then (c, ''Connection Timed Out'')
      else (RESPONSE_STATUS_INTERNAL_SERVER_ERROR, ''Internal Server Error''))"

definition coderesp :: "system \<Rightarrow> response \<Rightarrow> conn \<Rightarrow> bool \<Rightarrow> outcome \<times> conn" where
  "coderesp sys resp socket full_response =
     (if \<not> full_response then (Returned 0, socket)
      else
        (let (c, phrase) = status_line (code resp);
             line = HTTP_VERSION @ '' '' @ show_int c @ '' '' @ phrase @ CRLF
         in if write_buffer BUF_SIZE line < 0 then (Returned (- 1), socket)
            else
              (case sock_write socket line of
                 (False, socket') \<Rightarrow> (Returned (- 1), socket')
               | (True, socket') \<Rightarrow>
                   (let (result, socket'') = coderesp_headers sys resp socket'
                    in if c = RESPONSE_STATUS_CONNECTION_TIMED_OUT then (Exited, socket'')
                       else (Returned result, socket'')))))"

text \<open>\<^verbatim>\<open>send_generic_page\<close>. The message always fits its 256 bytes.\<close>

definition generic_message :: "int \<Rightarrow> string option" where
  "generic_message c =
     (if c = RESPONSE_STATUS_OK then Some (show_int c @ '' - OK'')
      else if c = RESPONSE_STATUS_BAD_REQUEST then Some (show_int c @ '' - Bad Request'')
      else if c = RESPONSE_STATUS_FORBIDDEN then Some (show_int c @ '' - Forbidden'')
      else if c = RESPONSE_STATUS_NOT_FOUND then Some (show_int c @ '' - File Not Found'')
      else if c = RESPONSE_STATUS_NOT_IMPLEMENTED then
        Some (show_int c @ '' - Method Not Implemented'')
      else if c = RESPONSE_STATUS_VERSION_NOT_SUPPORTED then
        Some (show_int c @ '' - HTTP Version Not Supported'')
      else if c = RESPONSE_STATUS_CONNECTION_TIMED_OUT then None
      else if c = RESPONSE_STATUS_INTERNAL_SERVER_ERROR then
        Some (show_int c @ '' - Internal Server Error'')
      else Some (show_int c @ '' - Unknown''))"

definition generic_page_text :: "string \<Rightarrow> string option \<Rightarrow> (string \<times> nat) option" where
  "generic_page_text message custom_msg =
     Option.bind (append_buffer ([], BUF_SIZE) (''<html>'' @ CRLF @ ''<head>'' @ CRLF)) (\<lambda>b1.
     Option.bind (append_buffer b1
        (''<title>Team Geronimo - '' @ message @ ''</title>'' @ CRLF @ ''</head>'' @ CRLF)) (\<lambda>b2.
     Option.bind (append_buffer b2
        (''<body>'' @ CRLF @ ''<h1>Team Geronimo</h1>'' @ CRLF)) (\<lambda>b3.
     (case custom_msg of
        Some msg \<Rightarrow>
          append_buffer b3 (''<p>'' @ message @ ''</p>'' @ CRLF @ ''<p>'' @ msg @ ''</p>'' @ CRLF
            @ ''</body>'' @ CRLF @ ''</html>'' @ CRLF)
      | None \<Rightarrow>
          append_buffer b3 (''<p>'' @ message @ ''</p>'' @ CRLF @ ''</body>'' @ CRLF
            @ ''</html>'' @ CRLF)))))"

definition send_generic_page ::
  "system \<Rightarrow> response \<Rightarrow> bool \<Rightarrow> conn \<Rightarrow> string option \<Rightarrow> outcome \<times> response \<times> conn" where
  "send_generic_page sys resp simple_response socket custom_msg =
     (case generic_message (code resp) of
        None \<Rightarrow> (Returned 0, resp, socket)
      | Some message \<Rightarrow>
          (case generic_page_text message custom_msg of
             None \<Rightarrow> (Returned (- 1), resp, socket)
           | Some b \<Rightarrow>
               (let resp' = resp\<lparr>content_length := int (length (fst b)),
                                 content_type := ''text/html''\<rparr>
                in case coderesp sys resp' socket (\<not> simple_response) of
                     (Returned r, socket') \<Rightarrow>
                       if r \<noteq> 0 then (Returned (- 1), resp', socket')
                       else
                         (case sock_write socket' (fst b) of
                            (False, socket'') \<Rightarrow> (Returned (- 1), resp', socket'')
                          | (True, socket'') \<Rightarrow> (Returned 0, resp', socket''))
                   | (oc, socket') \<Rightarrow> (oc, resp', socket'))))"

section \<open>\<^verbatim>\<open>http.c\<close>: resolving the request path\<close>

text \<open>\<^verbatim>\<open>check_index_html\<close>: the string left in \<^verbatim>\<open>index_html\<close>. (The canonical path it is
  called with is never empty; the model reads no byte before an empty one.)\<close>

definition check_index_html :: "system \<Rightarrow> string \<Rightarrow> string" where
  "check_index_html sys p =
     (case sys_stat sys p of
        None \<Rightarrow> p
      | Some st_stat_index \<Rightarrow>
          if \<not> st_isdir st_stat_index then p
          else if length p + length INDEX_HTML < PATH_MAX then
            (let index_html =
                   (if p \<noteq> [] \<and> last p = CHR ''/'' then p @ INDEX_HTML
                    else p @ ''/'' @ INDEX_HTML)
             in case sys_stat sys index_html of
                  Some st \<Rightarrow>
                    if \<not> st_isdir st then
                      (if sys_access sys index_html R_OK = None then index_html else p)
                    else p
                | None \<Rightarrow> p)
          else p)"

text \<open>
  The first half of \<^verbatim>\<open>checkuri\<close>: the branch on the form of the URI. Each branch either
  returns early with a status (\<open>Inl\<close>) or leaves \<^verbatim>\<open>uri_path\<close> and \<^verbatim>\<open>server_real_path\<close>
  (\<open>Inr\<close>); with both come the request, whose path the third branch cuts at the
  question mark and whose query string the second branch fills, and the flag
  \<^verbatim>\<open>*cgi_request\<close>. \<^verbatim>\<open>strcpy\<close> and \<^verbatim>\<open>strcat\<close> never return the null pointer, so the
  branches that test for it are dead. In the third branch \<^verbatim>\<open>strstr(path, "?")\<close> has
  succeeded, so the inner test \<^verbatim>\<open>*chp == '?'\<close> holds.
\<close>

definition uri_candidate ::
  "system \<Rightarrow> flags \<Rightarrow> request \<Rightarrow> bool \<Rightarrow> (int + string \<times> string) \<times> request \<times> bool" where
  "uri_candidate sys flag req cgi_request =
     (if take 2 (path req) = ''/~'' then
        (let userdir = drop 2 (path req);
             i = length (takeWhile (\<lambda>c. c \<noteq> CHR ''/'') userdir)
         in if i > LOGIN_NAME_MAX then (Inl RESPONSE_STATUS_BAD_REQUEST, req, cgi_request)
            else
              (case sys_getpwnam sys (take i userdir) of
                 None \<Rightarrow> (Inl RESPONSE_STATUS_NOT_FOUND, req, cgi_request)
               | Some pw_dir \<Rightarrow>
                   (case sys_realpath sys pw_dir of
                      None \<Rightarrow> (Inl RESPONSE_STATUS_NOT_FOUND, req, cgi_request)
                    | Some server_real_path \<Rightarrow>
                        if length server_real_path + length (drop i userdir) > PATH_MAX
                        then (Inl RESPONSE_STATUS_BAD_REQUEST, req, cgi_request)
                        else (Inr (server_real_path @ drop i userdir, server_real_path),
                              req, cgi_request))))
      else if strstr (path req) ''/cgi-bin/'' = Some (path req) \<and> c_dir flag \<noteq> None then
        (let cdir = the (c_dir flag)
         in if length cdir + length (drop 8 (path req)) > PATH_MAX
            then (Inl RESPONSE_STATUS_BAD_REQUEST, req, cgi_request)
            else
              (let uri_path = cdir @ drop (length CGI_PREFIX) (path req)
               in case sys_realpath sys cdir of
                    None \<Rightarrow> (Inl RESPONSE_STATUS_NOT_FOUND, req, True)
                  | Some server_real_path \<Rightarrow>
                      (case dropWhile (\<lambda>c. c \<noteq> CHR ''?'') uri_path of
                         [] \<Rightarrow> (Inr (uri_path, server_real_path), req, True)
                       | q # query \<Rightarrow>
                           (Inr (takeWhile (\<lambda>c. c \<noteq> CHR ''?'') uri_path, server_real_path),
                            req\<lparr>querystring := take (255 - length ''QUERY_STRING='') query\<rparr>,
                            True))))
      else if c_dir flag \<noteq> None \<and> strstr (path req) ''?'' \<noteq> None then
        (let cdir = the (c_dir flag);
             cut = takeWhile (\<lambda>c. c \<noteq> CHR ''?'') (path req);
             query = tl (dropWhile (\<lambda>c. c \<noteq> CHR ''?'') (path req));
             req' = req\<lparr>path := cut\<rparr>
         in if length cdir + length cut > PATH_MAX \<or> length query > PATH_MAX
            then (Inl RESPONSE_STATUS_BAD_REQUEST, req', True)
            else
              (case sys_realpath sys (dir flag) of
                 None \<Rightarrow> (Inl RESPONSE_STATUS_INTERNAL_SERVER_ERROR, req', True)
               | Some server_real_path \<Rightarrow> (Inr (cdir @ cut, server_real_path), req', True)))
      else
        (case sys_realpath sys (dir flag) of
           None \<Rightarrow> (Inl RESPONSE_STATUS_INTERNAL_SERVER_ERROR, req, cgi_request)
         | Some server_real_path \<Rightarrow>
             if length server_real_path + length (path req) > PATH_MAX
             then (Inl RESPONSE_STATUS_BAD_REQUEST, req, cgi_request)
             else (Inr (server_real_path @ path req, server_real_path), req, cgi_request)))"

text \<open>The access mode; an unknown method sets the status and leaves \<^verbatim>\<open>mode\<close> unassigned.\<close>

definition access_mode :: "request \<Rightarrow> bool \<Rightarrow> int \<Rightarrow> amode \<times> int" where
  "access_mode req cgi_request uri_status =
     (if cgi_request then (R_OK_X_OK, uri_status)
      else if req_method req = REQUEST_METHOD_GET \<or> req_method req = REQUEST_METHOD_HEAD
        then (R_OK, uri_status)
      else if req_method req = REQUEST_METHOD_POST then (R_OK_X_OK, uri_status)
      else (Unassigned, RESPONSE_STATUS_INTERNAL_SERVER_ERROR))"

definition access_failure_status :: "errno \<Rightarrow> int" where
  "access_failure_status e =
     (case e of
        EACCES \<Rightarrow> RESPONSE_STATUS_FORBIDDEN
      | EROFS \<Rightarrow> RESPONSE_STATUS_FORBIDDEN
      | ENAMETOOLONG \<Rightarrow> RESPONSE_STATUS_BAD_REQUEST
      | ELOOP \<Rightarrow> RESPONSE_STATUS_BAD_REQUEST
      | ENOENT \<Rightarrow> RESPONSE_STATUS_NOT_FOUND
      | ENOTDIR \<Rightarrow> RESPONSE_STATUS_NOT_FOUND
      | EOTHER \<Rightarrow> RESPONSE_STATUS_INTERNAL_SERVER_ERROR)"

text \<open>\<^verbatim>\<open>checkuri\<close>. The results of one call: the return value, the request, \<^verbatim>\<open>*uri_status\<close>,
  \<^verbatim>\<open>realpath_str\<close> (\<open>None\<close> while nothing was written to it) and \<^verbatim>\<open>*cgi_request\<close>.\<close>

record checkuri_result =
  cu_return :: int
  cu_request :: request
  cu_status :: int
  cu_realpath :: "string option"
  cu_cgi :: bool

definition checkuri ::
  "system \<Rightarrow> flags \<Rightarrow> request \<Rightarrow> int \<Rightarrow> string option \<Rightarrow> bool \<Rightarrow> checkuri_result" where
  "checkuri sys flag req uri_status realpath_str cgi_request =
     (case uri_candidate sys flag req cgi_request of
        (Inl status, req', cgi) \<Rightarrow>
          \<lparr>cu_return = - 1, cu_request = req', cu_status = status, cu_realpath = realpath_str,
           cu_cgi = cgi\<rparr>
      | (Inr (uri_path, server_real_path), req', cgi) \<Rightarrow>
          (let (mode, status1) = access_mode req' cgi uri_status
           in case sys_access sys uri_path mode of
                Some e \<Rightarrow>
                  \<lparr>cu_return = - 1, cu_request = req', cu_status = access_failure_status e,
                   cu_realpath = realpath_str, cu_cgi = cgi\<rparr>
              | None \<Rightarrow>
                  (case sys_realpath sys uri_path of
                     None \<Rightarrow>
                       \<lparr>cu_return = - 1, cu_request = req',
                        cu_status = RESPONSE_STATUS_INTERNAL_SERVER_ERROR,
                        cu_realpath = realpath_str, cu_cgi = cgi\<rparr>
                   | Some uri_real_path \<Rightarrow>
                       if strstr uri_real_path server_real_path \<noteq> None then
                         \<lparr>cu_return = 0, cu_request = req', cu_status = RESPONSE_STATUS_OK,
                          cu_realpath =
                            Some (if cgi then uri_real_path
                                  else check_index_html sys uri_real_path),
                          cu_cgi = cgi\<rparr>
                       else
                         \<lparr>cu_return = - 1, cu_request = req',
                          cu_status = RESPONSE_STATUS_FORBIDDEN,
                          cu_realpath = realpath_str, cu_cgi = cgi\<rparr>)))"

text \<open>
  The containment that the resolver is meant to establish, in the words of its
  specification: the canonical path equals the canonical root or is a descendant of it,
  delimited by the path separator.
\<close>

definition within_root :: "string \<Rightarrow> string \<Rightarrow> bool" where
  "within_root root p =
     (p = root \<or>
      (let r = (if root \<noteq> [] \<and> last root = CHR ''/'' then root else root @ ''/'')
       in take (length r) p = r))"

section \<open>\<^verbatim>\<open>http.c\<close>: directory listings and files\<close>








section \<open>\<^verbatim>\<open>http.c\<close>: CGI\<close>

text \<open>
  The environment strings that \<^verbatim>\<open>execute_cgi\<close> composes, in the order of its \<^verbatim>\<open>putenv\<close>
  calls: \<^verbatim>\<open>query_env\<close> (for GET and HEAD only), \<^verbatim>\<open>meth_env\<close>, \<^verbatim>\<open>length_env\<close>, \<^verbatim>\<open>type_env\<close>.
  A buffer that no \<^verbatim>\<open>sprintf\<close> has written is \<open>None\<close>. The test \<^verbatim>\<open>!request->querystring\<close>
  is applied to an array, whose address is never null, so the \<^verbatim>\<open>sprintf\<close> into
  \<^verbatim>\<open>query_env\<close> that it guards (of the local, unwritten \<^verbatim>\<open>query_string\<close>) is never run.
\<close>

definition querystring_is_null :: "request \<Rightarrow> bool" where
  "querystring_is_null req = False"

definition query_env :: "request \<Rightarrow> string option \<Rightarrow> string option" where
  "query_env req query_string =
     (if querystring_is_null req
      then map_option (\<lambda>q. ''QUERY_STRING ='' @ q) query_string
      else None)"

definition meth_env :: "request \<Rightarrow> string" where
  "meth_env req =
     (if req_method req = REQUEST_METHOD_GET then ''REQUEST_METHOD =GET''
      else if req_method req = REQUEST_METHOD_HEAD then ''REQUEST_METHOD =HEAD''
      else ''REQUEST_METHOD =POST'')"

definition length_env :: "request \<Rightarrow> string" where
  "length_env req = ''CONTENT_LENGTH ='' @ show_int (req_content_length req)"

definition type_env :: "request \<Rightarrow> string" where
  "type_env req = ''CONTENT_TYPE ='' @ req_content_type req"

definition cgi_environment :: "request \<Rightarrow> string option list" where
  "cgi_environment req =
     (if req_method req = REQUEST_METHOD_GET \<or> req_method req = REQUEST_METHOD_HEAD
      then [query_env req None] else [])
     @ [Some (meth_env req), Some (length_env req), Some (type_env req)]"





section \<open>\<^verbatim>\<open>http.c\<close> and \<^verbatim>\<open>net.c\<close>: handling a connection\<close>






text \<open>The header lines after the request line: whether parsing has failed, and the
  request. A date that does not parse ends the loop. Of the system only the time zone
  matters, through \<^verbatim>\<open>mktime\<close>.\<close>

fun parse_headers :: "int \<Rightarrow> string list \<Rightarrow> request \<Rightarrow> bool \<times> request" where
  "parse_headers gmtoff [] req = (False, req)"
| "parse_headers gmtoff (header_line # rest) req =
     (case (if length header_line > length IF_MODIFIED_SINCE_PREFIX
               \<and> strncasecmp header_line IF_MODIFIED_SINCE_PREFIX
                    (length IF_MODIFIED_SINCE_PREFIX) = 0
            then map_option (\<lambda>t. req\<lparr>if_modified_since_date := t\<rparr>)
                   (http_date_to_time gmtoff
                      (dropWhile isspace (drop (length IF_MODIFIED_SINCE_PREFIX) header_line)))
            else Some req) of
        None \<Rightarrow> (True, req)
      | Some req1 \<Rightarrow>
          (let req2 =
                 (if length header_line > length CONTENT_LENGTH_PREFIX + 2
                     \<and> strncasecmp header_line CONTENT_LENGTH_PREFIX
                          (length CONTENT_LENGTH_PREFIX) = 0
                  then req1\<lparr>req_content_length :=
                              atoi (drop (length CONTENT_LENGTH_PREFIX + 1) header_line)\<rparr>
                  else req1);
               req3 =
                 (if length header_line > length CONTENT_TYPE_PREFIX + 2
                     \<and> strncasecmp header_line CONTENT_TYPE_PREFIX
                          (length CONTENT_TYPE_PREFIX) = 0
                  then req2\<lparr>req_content_type :=
                              take 63 (drop (length CONTENT_TYPE_PREFIX + 1) header_line)\<rparr>
                  else req2)
           in parse_headers gmtoff rest req3))"







text \<open>The bytes that a client delivers, whatever the pauses and errors between them.\<close>

fun received :: "event list \<Rightarrow> string" where
  "received [] = []"
| "received (Data s # es) = s @ received es"
| "received (e # es) = received es"

text \<open>A header value that \<^verbatim>\<open>atoi\<close> finds no number in: after white space and an optional
  sign it does not go on with a digit.\<close>

definition no_leading_number :: "string \<Rightarrow> bool" where
  "no_leading_number s =
     (let s1 = dropWhile isspace s;
          s2 = (if s1 \<noteq> [] \<and> (hd s1 = CHR ''-'' \<or> hd s1 = CHR ''+'') then tl s1 else s1)
      in s2 = [] \<or> \<not> isdigit (hd s2))"

section \<open>A concrete system and concrete connections\<close>

text \<open>
  A small system on which the theorems below are tried: the directory \<^verbatim>\<open>/var/www\<close> with a
  file \<^verbatim>\<open>index.html\<close> and a directory \<^verbatim>\<open>pub\<close>, and beside it the directory \<^verbatim>\<open>/var/www2\<close>
  with a file \<^verbatim>\<open>secret\<close>. The clock shows 14 November 2023, 22:13:20 UTC; the zone is UTC.
\<close>

definition example_realpath :: "string \<Rightarrow> string option" where
  "example_realpath p =
     (if p = ''/var/www'' then Some ''/var/www''
      else if p = ''/var/www/index.html'' then Some ''/var/www/index.html''
      else if p = ''/var/www/old.txt'' then Some ''/var/www/old.txt''
      else if p = ''/var/www/pub'' then Some ''/var/www/pub''
      else if p = ''/var/www/../www2/secret'' then Some ''/var/www2/secret''
      else None)"

definition example_stat :: "string \<Rightarrow> stat option" where
  "example_stat p =
     (if p = ''/var/www'' \<or> p = ''/var/www/pub''
        then Some \<lparr>st_isdir = True, st_size = 4096, st_mtime = 1600000000\<rparr>
      else if p = ''/var/www/index.html''
        then Some \<lparr>st_isdir = False, st_size = 5, st_mtime = 1600000000\<rparr>
      else if p = ''/var/www/old.txt''
        then Some \<lparr>st_isdir = False, st_size = 3, st_mtime = - 1\<rparr>
      else if p = ''/var/www2/secret''
        then Some \<lparr>st_isdir = False, st_size = 6, st_mtime = 1600000000\<rparr>
      else None)"

definition example_system :: system where
  "example_system =
     \<lparr>sys_time = 1700000000, sys_gmtoff = 0,
      sys_realpath = example_realpath,
      sys_access = (\<lambda>p m. if example_realpath p \<noteq> None then None else Some ENOENT),
      sys_stat = example_stat,
      sys_getpwnam = (\<lambda>name. None),
      sys_magic_file = (\<lambda>p. Some ''text/plain''),
      sys_scandir = (\<lambda>p. if p = ''/var/www/pub''
                         then Some [''b.txt'', ''.hidden'', ''a.txt''] else None),
      sys_file = (\<lambda>p. if p = ''/var/www/index.html'' then Some ''hello''
                      else if p = ''/var/www2/secret'' then Some ''secret''
                      else if p = ''/var/www/old.txt'' then Some ''old'' else None),
      sys_spawn = NoFault,
      sys_cgi = (\<lambda>p env input. [])\<rparr>"

definition example_flags :: flags where
  "example_flags = \<lparr>c_dir = None, dir = ''/var/www''\<rparr>"



section \<open>Facts about the C library model\<close>

subsection \<open>Digits and decimal numbers\<close>

lemma char_of_eq_char: "(char_of (n::nat) = c) = (n mod 256 = of_char c)"
  by (simp add: char_of_eq_iff take_bit_eq_mod)

lemma char_eq_char_of: "(c = char_of (n::nat)) = (n mod 256 = of_char c)"
  using char_of_eq_char [of n c] by auto

















subsection \<open>Strings, buffers and the socket\<close>

lemma strncasecmp_numeral [simp]:
  "strncasecmp (a # as) (b # bs) (numeral n) =
     (if tolower a = tolower b then strncasecmp as bs (pred_numeral n)
      else int (of_char (tolower a)) - int (of_char (tolower b)))"
  "strncasecmp [] (b # bs) (numeral n) = - int (of_char (tolower b))"
  "strncasecmp (a # as) [] (numeral n) = int (of_char (tolower a))"
  "strncasecmp [] [] (numeral n) = 0"
  by (simp_all add: numeral_eq_Suc)

lemma of_char_diff_eq_0 [simp]: "(int (of_char a) - int (of_char b) = 0) = (a = b)"
  by simp

lemma append_buffer_Some: "length t < r \<Longrightarrow> append_buffer (b, r) t = Some (b @ t, r - length t)"
  by (simp add: append_buffer_def write_buffer_def)



lemma sock_write_incoming [simp]: "incoming (snd (sock_write s b)) = incoming s"
  by (simp add: sock_write_def)





lemma send_generic_page_code [simp]:
  "code (fst (snd (send_generic_page sys resp simple s msg))) = code resp"
  by (auto simp: send_generic_page_def Let_def split: option.splits prod.splits outcome.splits
      bool.splits)

subsection \<open>The steps of \<^verbatim>\<open>httpd\<close>\<close>









lemma strcasecmp_HEAD:
  assumes "strcasecmp m ''HEAD'' = 0"
  shows "strcasecmp m ''GET'' \<noteq> 0"
proof -
  obtain a as where m: "m = a # as" using assms by (cases m) (auto simp: tolower_def)
  have 1: "tolower a = tolower (CHR ''H'')"
    using assms unfolding m by (simp split: if_splits)
  have 2: "tolower (CHR ''H'') \<noteq> tolower (CHR ''G'')"
    by (simp_all add: tolower_def)
  show "strcasecmp m ''GET'' \<noteq> 0"
    unfolding m using 1 2 by simp_all
qed








subsection \<open>Header lines\<close>

lemma strncasecmp_eq0_length:
  assumes "strncasecmp h p n = 0" and "n \<le> length p"
    and "\<forall>c\<in>set p. (of_char (tolower c) :: nat) \<noteq> 0"
  shows "n \<le> length h"
  using assms
proof (induction h p n rule: strncasecmp.induct)
  case (5 a as b bs n)
  then show ?case by (simp split: if_splits)
qed simp_all

lemma content_length_line:
  assumes "strncasecmp h CONTENT_LENGTH_PREFIX 15 = 0"
  shows "strncasecmp h IF_MODIFIED_SINCE_PREFIX 18 \<noteq> 0"
    and "strncasecmp h CONTENT_TYPE_PREFIX 13 \<noteq> 0"
    and "15 \<le> length h"
proof -
  have l: "15 \<le> length h"
    by (rule strncasecmp_eq0_length [OF assms])
       (simp_all add: CONTENT_LENGTH_PREFIX_def tolower_def)
  then have "Suc (Suc (Suc (Suc (Suc (Suc (Suc (Suc (Suc 0)))))))) \<le> length h" by simp
  then obtain a0 a1 a2 a3 a4 a5 a6 a7 a8 r where h: "h = a0 # a1 # a2 # a3 # a4 # a5 # a6 # a7 # a8 # r"
    by (auto simp: Suc_le_length_iff)
  have t: "tolower (CHR ''C'') \<noteq> tolower (CHR ''I'')" "tolower (CHR ''L'') \<noteq> tolower (CHR ''T'')"
    by (simp_all add: tolower_def)
  have e: "tolower a0 = tolower (CHR ''C'')" "tolower a1 = tolower (CHR ''o'')"
    "tolower a2 = tolower (CHR ''n'')" "tolower a3 = tolower (CHR ''t'')"
    "tolower a4 = tolower (CHR ''e'')" "tolower a5 = tolower (CHR ''n'')"
    "tolower a6 = tolower (CHR ''t'')" "tolower a7 = tolower (CHR ''-'')"
    "tolower a8 = tolower (CHR ''L'')"
    using assms unfolding h CONTENT_LENGTH_PREFIX_def by (simp_all split: if_splits)
  show "strncasecmp h IF_MODIFIED_SINCE_PREFIX 18 \<noteq> 0"
    unfolding h IF_MODIFIED_SINCE_PREFIX_def using e(1) t(1) by simp
  show "strncasecmp h CONTENT_TYPE_PREFIX 13 \<noteq> 0"
    unfolding h CONTENT_TYPE_PREFIX_def using e t(2) by simp
  show "15 \<le> length h" by (rule l)
qed

lemma prefix_lengths:
  "length IF_MODIFIED_SINCE_PREFIX = 18" "length CONTENT_LENGTH_PREFIX = 15"
  "length CONTENT_TYPE_PREFIX = 13"
  by (simp_all add: IF_MODIFIED_SINCE_PREFIX_def CONTENT_LENGTH_PREFIX_def CONTENT_TYPE_PREFIX_def)

lemma atoi_no_leading_number:
  assumes "no_leading_number s"
  shows "atoi s = 0"
proof -
  define s1 where "s1 = dropWhile isspace s"
  define s2 where "s2 = (if s1 \<noteq> [] \<and> (hd s1 = CHR ''-'' \<or> hd s1 = CHR ''+'') then tl s1 else s1)"
  have "s2 = [] \<or> \<not> isdigit (hd s2)"
    using assms unfolding no_leading_number_def Let_def s2_def s1_def .
  then have d: "digits_value 0 s2 = 0" by (cases s2) auto
  have "strtol s = 0"
    unfolding strtol_def Let_def s1_def [symmetric] s2_def [symmetric] by (simp add: d)
  then show ?thesis by (simp add: atoi_def to_int32_def)
qed


section \<open>The claims\<close>

subsection \<open>C8: dates printed and read back\<close>




subsection \<open>C1: containment of the resolved path\<close>

text \<open>
  C1 does not hold of the code: \<^verbatim>\<open>checkuri\<close> accepts a canonical path as soon as the
  canonical root occurs in it as a substring (\<^verbatim>\<open>strstr\<close>), where its own comments ask
  for a path within the server's directory. With the root \<^verbatim>\<open>/var/www\<close>, the request path
  \<^verbatim>\<open>/../www2/secret\<close> resolves to \<^verbatim>\<open>/var/www2/secret\<close>, outside the root, with the status 200.
\<close>

theorem C1_sibling_directory_resolves:
  "cu_status (checkuri example_system example_flags
       (init_request\<lparr>req_method := REQUEST_METHOD_GET, path := ''/../www2/secret''\<rparr>) 0 None False)
     = RESPONSE_STATUS_OK
   \<and> cu_realpath (checkuri example_system example_flags
       (init_request\<lparr>req_method := REQUEST_METHOD_GET, path := ''/../www2/secret''\<rparr>) 0 None False)
     = Some ''/var/www2/secret''
   \<and> sys_realpath example_system (dir example_flags) = Some ''/var/www''
   \<and> \<not> within_root ''/var/www'' ''/var/www2/secret''"
  by code_simp

subsection \<open>C6: the environment of a CGI program\<close>

text \<open>
  C6 does not hold of the code: for a GET (and likewise a HEAD) the string that is put into
  the child's environment for the query is a buffer that was never written, whatever the
  query string of the request is; the other three entries are composed as C6 says, with a
  space before the equals sign.
\<close>

theorem C6_query_string_never_composed:
  "cgi_environment (req\<lparr>req_method := REQUEST_METHOD_GET, querystring := q\<rparr>)
     = [None, Some ''REQUEST_METHOD =GET'',
        Some (''CONTENT_LENGTH ='' @ show_int (req_content_length req)),
        Some (''CONTENT_TYPE ='' @ req_content_type req)]"
  by (simp add: cgi_environment_def query_env_def querystring_is_null_def meth_env_def
      length_env_def type_env_def REQUEST_METHOD_GET_def)

subsection \<open>C2: POST outside the CGI directory\<close>






subsection \<open>C3: the version token\<close>






subsection \<open>C5: a malformed Content-Length\<close>

text \<open>
  C5, as stated, fails: the value of a \<^verbatim>\<open>Content-Length\<close> line is read with \<^verbatim>\<open>atoi\<close>, which
  yields 0 for a text without a number. After the line \<^verbatim>\<open>Content-Length: abc\<close> the content
  length of the request is 0, not the value -1 that stands for unset. (The request is not
  failed.)
\<close>

theorem C5_content_length_counterexample:
  "no_leading_number ''abc''
   \<and> req_content_length init_request = - 1
   \<and> parse_headers 0 [''Content-Length: abc''] init_request
       = (False, init_request\<lparr>req_content_length := 0\<rparr>)"
proof -
  have n: "no_leading_number ''abc''"
    by (simp add: no_leading_number_def isspace_def isdigit_def)
  have "atoi ''abc'' = 0" by (rule atoi_no_leading_number [OF n])
  then have "parse_headers 0 [''Content-Length: abc''] init_request
       = (False, init_request\<lparr>req_content_length := 0\<rparr>)"
    by (simp add: IF_MODIFIED_SINCE_PREFIX_def CONTENT_LENGTH_PREFIX_def CONTENT_TYPE_PREFIX_def
        tolower_def char_of_eq_char char_eq_char_of)
  with n show ?thesis by (simp add: init_request_def)
qed


text \<open>
  C5, amended: for every header line that begins with \<^verbatim>\<open>Content-Length:\<close> (letter case
  ignored), the parser does not fail the request and goes on with the next line; when
  the line has more than 17 characters it sets the content length to what \<^verbatim>\<open>atoi\<close> makes of
  the text from the 17th character on, which is 0 for a text without a leading number;
  when the line has at most 17 characters it leaves the content length as it was.
\<close>

theorem C5_content_length:
  assumes "strncasecmp h CONTENT_LENGTH_PREFIX 15 = 0"
  shows "(17 < length h \<longrightarrow>
            parse_headers gmtoff (h # rest) req
              = parse_headers gmtoff rest (req\<lparr>req_content_length := atoi (drop 16 h)\<rparr>)
            \<and> (no_leading_number (drop 16 h) \<longrightarrow> atoi (drop 16 h) = 0))
         \<and> (length h \<le> 17 \<longrightarrow>
              parse_headers gmtoff (h # rest) req = parse_headers gmtoff rest req)"
  using content_length_line(1,2) [OF assms] assms
  by (simp add: prefix_lengths atoi_no_leading_number)


text \<open>C5, amended, at a value without a number and at a line of 17 characters.\<close>

theorem C5_content_length_witness:
  "parse_headers 0 [''Content-Length: twelve'', ''Content-Type: text/plain''] init_request
     = (False, init_request\<lparr>req_content_length := 0, req_content_type := ''text/plain''\<rparr>)
   \<and> parse_headers 0 [''Content-Length: 1'', ''Content-Type: text/plain''] init_request
     = (False, init_request\<lparr>req_content_type := ''text/plain''\<rparr>)"
proof -
  have p: "strncasecmp ''Content-Length: twelve'' CONTENT_LENGTH_PREFIX 15 = 0"
    "strncasecmp ''Content-Length: 1'' CONTENT_LENGTH_PREFIX 15 = 0"
    by (simp_all add: CONTENT_LENGTH_PREFIX_def tolower_def)
  have n: "no_leading_number (drop 16 ''Content-Length: twelve'')"
    by (simp add: no_leading_number_def isspace_def isdigit_def)
  have t: "parse_headers 0 [''Content-Type: text/plain''] r
             = (False, r\<lparr>req_content_type := ''text/plain''\<rparr>)" for r
    by (simp add: IF_MODIFIED_SINCE_PREFIX_def CONTENT_LENGTH_PREFIX_def CONTENT_TYPE_PREFIX_def
        tolower_def char_of_eq_char char_eq_char_of)
  have e1: "parse_headers 0 [''Content-Length: twelve'', ''Content-Type: text/plain''] init_request
      = parse_headers 0 [''Content-Type: text/plain''] (init_request\<lparr>req_content_length := 0\<rparr>)"
    using C5_content_length [OF p(1), of 0 "[''Content-Type: text/plain'']" init_request] n
    by (simp del: parse_headers.simps)
  have e2: "parse_headers 0 [''Content-Length: 1'', ''Content-Type: text/plain''] init_request
      = parse_headers 0 [''Content-Type: text/plain''] init_request"
    using C5_content_length [OF p(2), of 0 "[''Content-Type: text/plain'']" init_request]
    by (simp del: parse_headers.simps)
  show ?thesis
    unfolding e1 e2 t by simp
qed

end
